theory Spec2Isabelle
  imports Main "HOL-Library.Word" "HOL-Library.AList"
begin

unbundle bit_operations_syntax

section \<open>Python values\<close>

text \<open>
  The router handles JSON-like dictionaries (\<^verbatim>\<open>JSONDict\<close>): the routing data of a
  device, the gateway reply and the per-message result inside the reply. A dictionary is
  an association list from string keys to values; \<open>map_of\<close> is the lookup and
  \<open>AList.update\<close> the assignment \<^verbatim>\<open>d[k] = v\<close>.
\<close>

datatype pyval =
    PNone
  | PBool bool
  | PInt int
  | PStr string
  | PList "pyval list"
  | PDict "(string \<times> pyval) list"

type_synonym pydict = "(string \<times> pyval) list"

text \<open>
  Modelled from the spec: the class \<^verbatim>\<open>RouterException\<close> is imported from
  \<^verbatim>\<open>autopush.exceptions\<close>, which is not part of the sources at hand. The record holds
  the constructor arguments that \<^verbatim>\<open>fcm.py\<close> passes (the spec's \<open>RouterFailure\<close>:
  message, status code, optional errno, log-as-exception flag, and the body). An argument
  that a call site does not pass is \<open>None\<close>. The keyword context that
  \<^verbatim>\<open>register\<close> adds for the log (\<^verbatim>\<open>uri\<close>, \<^verbatim>\<open>senderid\<close>) is not kept.
\<close>

record router_exception =
  message :: string
  exc_status_code :: int
  exc_response_body :: "string option"
  exc_errno :: "int option"
  log_exception :: "bool option"

text \<open>
  Exceptions. \<open>RouterException\<close> is the router's own failure signal; the others are the
  built-in exceptions that the statements of \<^verbatim>\<open>fcm.py\<close> can raise.
\<close>

datatype exc =
    RouterException router_exception
  | IndexError
  | KeyError string
  | TypeError
  | AttributeError
  | IOError string

text \<open>
  Modelled from the spec: the class \<^verbatim>\<open>RouterResponse\<close> is imported from
  \<^verbatim>\<open>autopush.router.interface\<close>, which is not part of the sources at hand. The record
  holds the constructor arguments (the spec's \<open>RouterResponse\<close>: status code, body,
  headers, routing-data patch, logged status, and the errno of a soft failure). An
  argument that a call site does not pass is \<open>None\<close>.
\<close>

record router_response =
  status_code :: int
  response_body :: string
  resp_router_data :: "pydict option"
  resp_headers :: "pydict option"
  resp_errno :: "int option"
  logged_status :: "int option"

text \<open>Python truthiness, as tested by \<^verbatim>\<open>if x:\<close>, \<^verbatim>\<open>not x\<close> and \<^verbatim>\<open>x or y\<close>.\<close>

fun truthy :: "pyval \<Rightarrow> bool" where
  "truthy PNone = False"
| "truthy (PBool b) = b"
| "truthy (PInt i) = (i \<noteq> 0)"
| "truthy (PStr s) = (s \<noteq> [])"
| "truthy (PList xs) = (xs \<noteq> [])"
| "truthy (PDict d) = (d \<noteq> [])"

text \<open>\<^verbatim>\<open>d.get(k)\<close> and \<^verbatim>\<open>d.get(k, default)\<close> on a dictionary.\<close>

definition dict_get :: "pydict \<Rightarrow> string \<Rightarrow> pyval" where
  "dict_get d k = (case map_of d k of None \<Rightarrow> PNone | Some v \<Rightarrow> v)"

definition dict_get_default :: "pydict \<Rightarrow> string \<Rightarrow> pyval \<Rightarrow> pyval" where
  "dict_get_default d k dflt = (case map_of d k of None \<Rightarrow> dflt | Some v \<Rightarrow> v)"

text \<open>
  \<^verbatim>\<open>x.get(k, default)\<close> on an arbitrary value: only a dictionary has the method, any other
  value raises \<^verbatim>\<open>AttributeError\<close>.
\<close>

fun py_get :: "pyval \<Rightarrow> string \<Rightarrow> pyval \<Rightarrow> exc + pyval" where
  "py_get (PDict d) k dflt = Inr (dict_get_default d k dflt)"
| "py_get _ k dflt = Inl AttributeError"

text \<open>
  \<^verbatim>\<open>x[0]\<close> on an arbitrary value: the first element of a list, the first character of a
  string, \<^verbatim>\<open>IndexError\<close> when either is empty; a dictionary with string keys has no key
  \<^verbatim>\<open>0\<close>; the other values are not subscriptable.
\<close>

fun getitem0 :: "pyval \<Rightarrow> exc + pyval" where
  "getitem0 (PList []) = Inl IndexError"
| "getitem0 (PList (x # xs)) = Inr x"
| "getitem0 (PStr []) = Inl IndexError"
| "getitem0 (PStr (c # cs)) = Inr (PStr [c])"
| "getitem0 (PDict d) = Inl (KeyError ''0'')"
| "getitem0 _ = Inl TypeError"

text \<open>An optional string as a value: \<^verbatim>\<open>None\<close> or the string.\<close>

fun opt_str :: "string option \<Rightarrow> pyval" where
  "opt_str None = PNone"
| "opt_str (Some s) = PStr s"

text \<open>\<^verbatim>\<open>"%d" % i\<close>: the decimal digits of an integer, with a minus sign below zero.\<close>

definition digit :: "nat \<Rightarrow> char" where
  "digit d = ''0123456789'' ! d"

fun str_nat :: "nat \<Rightarrow> string" where
  "str_nat n = (if n < 10 then [digit n] else str_nat (n div 10) @ [digit (n mod 10)])"

declare str_nat.simps [simp del]

definition str_int :: "int \<Rightarrow> string" where
  "str_int i = (if i < 0 then CHR ''-'' # str_nat (nat (- i)) else str_nat (nat i))"

text \<open>\<^verbatim>\<open>uuid.hex\<close>: the 128 bits as 32 lowercase hexadecimal digits, high nibble first.\<close>

definition hexdigit :: "nat \<Rightarrow> char" where
  "hexdigit d = ''0123456789abcdef'' ! d"

definition uuid_hex :: "128 word \<Rightarrow> string" where
  "uuid_hex w = map (\<lambda>i. hexdigit (unat (drop_bit (4 * (31 - i)) w AND 15))) [0..<32]"

section \<open>Effects\<close>

text \<open>
  The router increments counters of the metrics sink and writes to a leveled log. A
  function of the model returns the events it emitted, in order, with its outcome; an
  exception keeps the events emitted before it was raised. A log event holds the level
  and the message (the format string where the log call passes keyword context).
\<close>

datatype log_level = Debug | Info | Warn | Error | Critical

datatype event =
    Metric string
  | Log log_level string

section \<open>The router and its collaborators\<close>

text \<open>The notification, as far as the router reads it.\<close>

record notification =
  channel_id :: "128 word"
  data :: "string option"
  headers :: "(string \<times> string) list"
  ttl :: "int option"
  version :: string

text \<open>The recognised options of the router configuration; an absent option is \<open>None\<close>.\<close>

record router_conf =
  conf_ttl :: "int option"
  conf_dryrun :: "bool option"
  conf_collapseKey :: "string option"
  conf_senderID :: "string option"
  conf_auth :: "string option"
  conf_max_data :: "int option"

record ap_settings =
  endpoint_url :: string

text \<open>The attributes of an \<^verbatim>\<open>FCMRouter\<close> instance set by \<^verbatim>\<open>__init__\<close>.\<close>

record fcm_router =
  config :: router_conf
  min_ttl :: int
  dryRun :: bool
  collapseKey :: string
  senderID :: "string option"
  auth :: "string option"
  settings :: ap_settings

text \<open>
  The gateway client: the keyword arguments of \<^verbatim>\<open>notify_single_device\<close>, and the three
  classes of exception that \<^verbatim>\<open>_route\<close> tells apart, each with the text of the exception.
\<close>

record fcm_call =
  collapse_key :: string
  data_message :: pydict
  dry_run :: bool
  registration_id :: pyval
  time_to_live :: int

datatype fcm_error =
    AuthenticationError string
  | ConnectionError string
  | OtherError string

type_synonym fcm_client = "fcm_call \<Rightarrow> fcm_error + pydict"

definition MAX_TTL :: int where
  "MAX_TTL = 2419200"

record reason_entry =
  msg :: string
  err :: int
  errno :: int
  crit :: "bool option"

definition reasonTable :: "(string \<times> reason_entry) list" where
  "reasonTable =
    [(''MissingRegistration'',
        \<lparr>msg = '''to' or 'registration_id' is blank or invalid: {regid}'',
         err = 500, errno = 1, crit = None\<rparr>),
     (''InvalidRegistration'',
        \<lparr>msg = ''registration_id is invalid: {regid}'',
         err = 410, errno = 105, crit = None\<rparr>),
     (''NotRegistered'',
        \<lparr>msg = ''device has unregistered with FCM: {regid}'',
         err = 410, errno = 103, crit = None\<rparr>),
     (''InvalidPackageName'',
        \<lparr>msg = ''Invalid Package Name specified'',
         err = 500, errno = 2, crit = Some True\<rparr>),
     (''MismatchSenderid'',
        \<lparr>msg = ''Invalid SenderID used: {senderid}'',
         err = 410, errno = 105, crit = Some True\<rparr>),
     (''MessageTooBig'',
        \<lparr>msg = ''Message length was too big: {nlen}'',
         err = 413, errno = 104, crit = None\<rparr>),
     (''InvalidDataKey'',
        \<lparr>msg = ''Payload contains an invalid or restricted key value'',
         err = 500, errno = 3, crit = Some True\<rparr>),
     (''InvalidTtl'',
        \<lparr>msg = ''Invalid TimeToLive {ttl}'',
         err = 400, errno = 111, crit = None\<rparr>),
     (''Unavailable'',
        \<lparr>msg = ''Message has timed out or device is unavailable'',
         err = 200, errno = 0, crit = None\<rparr>),
     (''InternalServerError'',
        \<lparr>msg = ''FCM internal server error'',
         err = 500, errno = 999, crit = None\<rparr>),
     (''DeviceMessageRateExceeded'',
        \<lparr>msg = ''Too many messages for this device'',
         err = 503, errno = 4, crit = None\<rparr>),
     (''TopicsMessageRateExceeded'',
        \<lparr>msg = ''Too many subscribers for this topic'',
         err = 503, errno = 5, crit = Some True\<rparr>),
     (''Unreported'',
        \<lparr>msg = ''Error has no reported reason.'',
         err = 500, errno = 999, crit = Some True\<rparr>)]"

text \<open>
  \<^verbatim>\<open>self.reasonTable.get(reason)\<close>: the entry of a string key that the table has,
  \<^verbatim>\<open>None\<close> for any other hashable value; a list or a dictionary is unhashable and the
  lookup raises \<^verbatim>\<open>TypeError\<close>.
\<close>

fun reasonTable_get :: "pyval \<Rightarrow> exc + reason_entry option" where
  "reasonTable_get (PStr s) = Inr (map_of reasonTable s)"
| "reasonTable_get (PList xs) = Inl TypeError"
| "reasonTable_get (PDict d) = Inl TypeError"
| "reasonTable_get _ = Inr None"

text \<open>
  \<^verbatim>\<open>__init__\<close>: reads the configuration with its defaults and constructs the gateway
  client from the API key. Whether that construction succeeds is the client library's
  business, so it is the parameter \<open>fcm_new\<close>.
\<close>

definition FCMRouter_init ::
  "(string option \<Rightarrow> bool) \<Rightarrow> ap_settings \<Rightarrow> router_conf \<Rightarrow> event list \<times> (exc + fcm_router)"
where
  "FCMRouter_init fcm_new ap router_conf =
    (if \<not> fcm_new (conf_auth router_conf) then
       ([Log Error ''Could not instantiate FCM {ex}''],
        Inl (IOError ''FCM Bridge not initiated in main''))
     else
       ([Log Debug ''Starting FCM router...''],
        Inr \<lparr>config = router_conf,
             min_ttl = (case conf_ttl router_conf of None \<Rightarrow> 60 | Some t \<Rightarrow> t),
             dryRun = (case conf_dryrun router_conf of None \<Rightarrow> False | Some b \<Rightarrow> b),
             collapseKey =
               (case conf_collapseKey router_conf of None \<Rightarrow> ''webpush'' | Some k \<Rightarrow> k),
             senderID = conf_senderID router_conf,
             auth = conf_auth router_conf,
             settings = ap\<rparr>))"

text \<open>
  \<^verbatim>\<open>_error\<close>: logs the message at debug level and returns the \<^verbatim>\<open>RouterException\<close> for
  the caller to raise, with the message as the body.
\<close>

definition router_error ::
  "string \<Rightarrow> int \<Rightarrow> int option \<Rightarrow> bool option \<Rightarrow> event list \<times> exc"
where
  "router_error e status eno log_exc =
    ([Log Debug e],
     RouterException \<lparr>message = e, exc_status_code = status, exc_response_body = Some e,
                      exc_errno = eno, log_exception = log_exc\<rparr>)"

text \<open>
  \<^verbatim>\<open>amend_endpoint_response\<close>: \<^verbatim>\<open>router_data.get('creds', {}).get('senderID')\<close> stored
  under \<^verbatim>\<open>senderid\<close> in the response.
\<close>

definition amend_endpoint_response :: "pydict \<Rightarrow> pydict \<Rightarrow> exc + pydict" where
  "amend_endpoint_response response router_data =
    (case py_get (dict_get_default router_data ''creds'' (PDict [])) ''senderID'' PNone of
       Inl e \<Rightarrow> Inl e
     | Inr s \<Rightarrow> Inr (AList.update ''senderid'' s response))"

text \<open>
  \<^verbatim>\<open>register\<close>: returns the routing data as the call leaves it (the source mutates the
  dictionary in place and returns nothing).
\<close>

definition register ::
  "fcm_router \<Rightarrow> string \<Rightarrow> pydict \<Rightarrow> string \<Rightarrow> event list \<times> (exc + pydict)"
where
  "register self uaid router_data app_id =
    (let senderid = app_id in
     if map_of router_data ''token'' = None then
       (case router_error (''connect info missing FCM Instance 'token'' @ [CHR 0x27])
               401 None None of
          (evs, e) \<Rightarrow> (evs, Inl e))
     else if \<not> (Some senderid = senderID self) then
       (case router_error ''Invalid SenderID'' 410 (Some 105) None of
          (evs, e) \<Rightarrow> (evs, Inl e))
     else
       ([], Inr (AList.update ''creds''
                   (PDict [(''senderID'', opt_str (senderID self)),
                           (''auth'', opt_str (auth self))])
                   router_data)))"

section \<open>Reply processing\<close>

text \<open>
  Line 225 of \<^verbatim>\<open>_process_reply\<close>: \<^verbatim>\<open>reply.get('results', [{}])[0]\<close>. The default
  \<^verbatim>\<open>[{}]\<close> stands in only when the reply has no \<^verbatim>\<open>results\<close> key.
\<close>

definition get_result :: "pydict \<Rightarrow> exc + pyval" where
  "get_result reply = getitem0 (dict_get_default reply ''results'' (PList [PDict []]))"

text \<open>
  \<^verbatim>\<open>_process_reply\<close>. The branches are tried in the source's order: a truthy
  \<^verbatim>\<open>canonical_ids\<close> first, then a truthy \<^verbatim>\<open>failure\<close>, then success. The keyword
  arguments of a log call are evaluated before the call, in the order written, so
  \<^verbatim>\<open>len(notification.data)\<close> and \<^verbatim>\<open>router_data["token"]\<close> can raise before the
  critical log is written. \<open>ttl'\<close> is the parameter \<^verbatim>\<open>ttl\<close>.
\<close>

definition process_reply ::
  "fcm_router \<Rightarrow> pydict \<Rightarrow> notification \<Rightarrow> pydict \<Rightarrow> int
     \<Rightarrow> event list \<times> (exc + router_response)"
where
  "process_reply self reply notification router_data ttl' =
    (case get_result reply of
       Inl e \<Rightarrow> ([], Inl e)
     | Inr result \<Rightarrow>
        if truthy (dict_get reply ''canonical_ids'') then
          (case map_of router_data ''token'' of
             None \<Rightarrow> ([], Inl (KeyError ''token''))
           | Some old_id \<Rightarrow>
              (case py_get result ''registration_id'' PNone of
                 Inl e \<Rightarrow> ([], Inl e)
               | Inr new_id \<Rightarrow>
                  ([Log Info ''FCM id changed : {old} => {new}'',
                    Metric ''updates.client.bridge.fcm.failed.rereg''],
                   Inr \<lparr>status_code = 503,
                        response_body = ''Please try request again.'',
                        resp_router_data = Some [(''token'', new_id)],
                        resp_headers = None,
                        resp_errno = None,
                        logged_status = None\<rparr>)))
        else if truthy (dict_get reply ''failure'') then
          (let evs = [Metric ''updates.client.bridge.fcm.failed''] in
           case py_get result ''error'' (PStr ''Unreported'') of
             Inl e \<Rightarrow> (evs, Inl e)
           | Inr reason \<Rightarrow>
              (case reasonTable_get reason of
                 Inl e \<Rightarrow> (evs, Inl e)
               | Inr None \<Rightarrow> (evs, Inl AttributeError)
               | Inr (Some entry) \<Rightarrow>
                  if (case crit entry of None \<Rightarrow> False | Some c \<Rightarrow> c) then
                    (case data notification of
                       None \<Rightarrow> (evs, Inl TypeError)
                     | Some d \<Rightarrow>
                        (case map_of router_data ''token'' of
                           None \<Rightarrow> (evs, Inl (KeyError ''token''))
                         | Some regid \<Rightarrow>
                            (evs @ [Log Critical (msg entry)],
                             Inl (RouterException
                                   \<lparr>message = ''FCM failure to deliver'',
                                    exc_status_code = err entry,
                                    exc_response_body = Some ''Please try request later.'',
                                    exc_errno = None,
                                    log_exception = Some False\<rparr>))))
                  else
                    (case map_of router_data ''creds'' of
                       None \<Rightarrow> (evs, Inl (KeyError ''creds''))
                     | Some creds \<Rightarrow>
                        (case py_get creds ''registration_id'' PNone of
                           Inl e \<Rightarrow> (evs, Inl e)
                         | Inr sid \<Rightarrow>
                            (evs @ [Log Info ''{msg} : {info}''],
                             Inr \<lparr>status_code = err entry,
                                  response_body = msg entry,
                                  resp_router_data = Some [],
                                  resp_headers = None,
                                  resp_errno = Some (errno entry),
                                  logged_status = None\<rparr>)))))
        else
          ([Metric ''updates.client.bridge.fcm.succeeded''],
           Inr \<lparr>status_code = 201,
                response_body = [],
                resp_router_data = None,
                resp_headers =
                  Some [(''TTL'', PInt ttl'),
                        (''Location'',
                         PStr (endpoint_url (settings self) @ ''/m/'' @ version notification))],
                resp_errno = None,
                logged_status = Some 200\<rparr>))"

section \<open>Dispatch\<close>

text \<open>
  Lines 166 to 183 of \<^verbatim>\<open>_route\<close>: the size check of the payload and the fields that a
  payload adds to the gateway message. An absent or empty payload is falsy and adds
  nothing. In the message of the size failure only the last literal is formatted
  (\<^verbatim>\<open>%\<close> binds tighter than \<^verbatim>\<open>+\<close>).
\<close>

definition attach_payload ::
  "fcm_router \<Rightarrow> notification \<Rightarrow> pydict \<Rightarrow> event list \<times> (exc + pydict)"
where
  "attach_payload self notification data0 =
    (case data notification of
       None \<Rightarrow> ([], Inr data0)
     | Some d \<Rightarrow>
        if d = [] then ([], Inr data0)
        else
          let mdata = (case conf_max_data (config self) of None \<Rightarrow> 4096 | Some m \<Rightarrow> m) in
          if int (length d) > mdata then
            (case router_error
                    (''This message is intended for a '' @
                     ''constrained device and is limited '' @
                     ''to 3070 bytes. Converted buffer too '' @
                     (''long by '' @ str_int (int (length d) - mdata) @ '' bytes''))
                    413 (Some 104) (Some False) of
               (evs, e) \<Rightarrow> (evs, Inl e))
          else
            (case map_of (headers notification) ''encoding'' of
               None \<Rightarrow> ([], Inl (KeyError ''encoding''))
             | Some con \<Rightarrow>
                (case map_of (headers notification) ''encryption'' of
                   None \<Rightarrow> ([], Inl (KeyError ''encryption''))
                 | Some enc \<Rightarrow>
                    (let data1 = AList.update ''enc'' (PStr enc)
                                   (AList.update ''con'' (PStr con)
                                     (AList.update ''body'' (PStr d) data0)) in
                     case map_of (headers notification) ''crypto_key'' of
                       Some ck \<Rightarrow> ([], Inr (AList.update ''cryptokey'' (PStr ck) data1))
                     | None \<Rightarrow>
                        (case map_of (headers notification) ''encryption_key'' of
                           Some ek \<Rightarrow> ([], Inr (AList.update ''enckey'' (PStr ek) data1))
                         | None \<Rightarrow> ([], Inr data1))))))"

text \<open>
  Lines 187 and 188 of \<^verbatim>\<open>_route\<close>. \<^verbatim>\<open>notification.ttl or 0\<close> is the requested TTL when
  it is truthy (neither \<^verbatim>\<open>None\<close> nor zero) and \<^verbatim>\<open>0\<close> otherwise.
\<close>

definition router_ttl :: "fcm_router \<Rightarrow> notification \<Rightarrow> int" where
  "router_ttl self notification =
    min MAX_TTL
        (max (min_ttl self)
             (case ttl notification of
                None \<Rightarrow> 0
              | Some t \<Rightarrow> if t \<noteq> 0 then t else 0))"

text \<open>
  \<^verbatim>\<open>_route\<close>, with the gateway client \<open>fcm\<close> as a parameter: what the blocking call
  returns or raises is the gateway's business.
\<close>

definition route ::
  "fcm_router \<Rightarrow> fcm_client \<Rightarrow> notification \<Rightarrow> pydict
     \<Rightarrow> event list \<times> (exc + router_response)"
where
  "route self fcm notification router_data =
    (let data0 = [(''chid'', PStr (uuid_hex (channel_id notification)))] in
     if \<not> truthy (dict_get router_data ''token'') then
       (case router_error (''No registration token found. '' @ ''Rejecting message.'')
               410 (Some 106) (Some False) of
          (evs, e) \<Rightarrow> (evs, Inl e))
     else
       let regid = dict_get router_data ''token'' in
       case attach_payload self notification data0 of
         (evs, Inl e) \<Rightarrow> (evs, Inl e)
       | (evs, Inr data1) \<Rightarrow>
          (let router_ttl' = router_ttl self notification in
           case fcm \<lparr>collapse_key = collapseKey self,
                     data_message = data1,
                     dry_run = (dryRun self \<or> map_of router_data ''dryrun'' \<noteq> None),
                     registration_id = regid,
                     time_to_live = router_ttl'\<rparr> of
             Inl (AuthenticationError e) \<Rightarrow>
               (evs @ [Log Error (''Authentication Error: '' @ e)],
                Inl (RouterException
                      \<lparr>message = ''Server error'', exc_status_code = 500,
                       exc_response_body = None, exc_errno = None,
                       log_exception = None\<rparr>))
           | Inl (ConnectionError e) \<Rightarrow>
               (evs @ [Metric ''updates.client.bridge.fcm.connection_err'',
                       Log Warn (''Could not connect to FCM server: '' @ e)],
                Inl (RouterException
                      \<lparr>message = ''Server error'', exc_status_code = 502,
                       exc_response_body = None, exc_errno = None,
                       log_exception = Some False\<rparr>))
           | Inl (OtherError e) \<Rightarrow>
               (evs @ [Log Error (''Unhandled FCM Error: '' @ e)],
                Inl (RouterException
                      \<lparr>message = ''Server error'', exc_status_code = 500,
                       exc_response_body = None, exc_errno = None,
                       log_exception = None\<rparr>))
           | Inr result \<Rightarrow>
               (case process_reply self result notification router_data router_ttl' of
                  (evs', r) \<Rightarrow>
                    (evs @ [Metric ''updates.client.bridge.fcm.attempted''] @ evs', r))))"

text \<open>
  \<^verbatim>\<open>route_notification\<close>: the outcome of the deferred is the outcome of \<^verbatim>\<open>_route\<close> on
  the routing data of the device. Routing data that is not a dictionary fails at the
  first \<^verbatim>\<open>router_data.get\<close>.
\<close>

definition route_notification ::
  "fcm_router \<Rightarrow> fcm_client \<Rightarrow> notification \<Rightarrow> pydict
     \<Rightarrow> event list \<times> (exc + router_response)"
where
  "route_notification self fcm notification uaid_data =
    (case map_of uaid_data ''router_data'' of
       None \<Rightarrow> ([], Inl (KeyError ''router_data''))
     | Some (PDict router_data) \<Rightarrow> route self fcm notification router_data
     | Some _ \<Rightarrow> ([], Inl AttributeError))"

section \<open>Reading a decimal rendering back\<close>

text \<open>
  The inverse of \<open>str_nat\<close>, used to state that a number written into a message can be
  read off the message again.
\<close>

definition digit_value :: "char \<Rightarrow> nat" where
  "digit_value c = of_char c - 48"

definition read_nat :: "string \<Rightarrow> nat" where
  "read_nat s = foldl (\<lambda>a c. 10 * a + digit_value c) 0 s"

section \<open>Concrete inputs\<close>

text \<open>
  A router with the default configuration (floor of 60 seconds, 4096 bytes of payload),
  a notification without payload, routing data as \<^verbatim>\<open>register\<close> leaves it, and gateway
  replies in the shape that the gateway client returns.
\<close>

definition example_conf :: router_conf where
  "example_conf = \<lparr>conf_ttl = None, conf_dryrun = None, conf_collapseKey = None,
                    conf_senderID = Some ''SID'', conf_auth = Some ''KEY'',
                    conf_max_data = None\<rparr>"

definition example_router :: fcm_router where
  "example_router = \<lparr>config = example_conf, min_ttl = 60, dryRun = False,
                      collapseKey = ''webpush'', senderID = Some ''SID'',
                      auth = Some ''KEY'',
                      settings = \<lparr>endpoint_url = ''https://push.example''\<rparr>\<rparr>"

definition example_notification :: notification where
  "example_notification = \<lparr>channel_id = 0xdeadbeef, data = None, headers = [],
                            ttl = Some 30, version = ''v1''\<rparr>"

definition example_router_data :: pydict where
  "example_router_data =
     [(''token'', PStr ''old''),
      (''creds'', PDict [(''senderID'', PStr ''SID''), (''auth'', PStr ''KEY'')])]"

definition example_reply_ok :: pydict where
  "example_reply_ok =
     [(''success'', PInt 1), (''failure'', PInt 0), (''canonical_ids'', PInt 0),
      (''results'', PList [PDict [(''message_id'', PStr ''m1'')]])]"

definition example_reply_critical :: pydict where
  "example_reply_critical =
     [(''success'', PInt 0), (''failure'', PInt 1), (''canonical_ids'', PInt 0),
      (''results'', PList [PDict [(''error'', PStr ''InvalidPackageName'')]])]"

definition example_reply_soft :: pydict where
  "example_reply_soft =
     [(''success'', PInt 0), (''failure'', PInt 1), (''canonical_ids'', PInt 0),
      (''results'', PList [PDict [(''error'', PStr ''NotRegistered'')]])]"

text \<open>
  A failure whose reason is not a key of the table: the table spells its key
  \<^verbatim>\<open>MismatchSenderid\<close>.
\<close>

definition example_reply_unknown :: pydict where
  "example_reply_unknown =
     [(''success'', PInt 0), (''failure'', PInt 1), (''canonical_ids'', PInt 0),
      (''results'', PList [PDict [(''error'', PStr ''MismatchSenderId'')]])]"

text \<open>Replies whose list of results is empty.\<close>

definition example_reply_empty :: pydict where
  "example_reply_empty = [(''results'', PList [])]"

definition example_reply_ok_empty :: pydict where
  "example_reply_ok_empty =
     [(''success'', PInt 1), (''failure'', PInt 0), (''canonical_ids'', PInt 0),
      (''results'', PList [])]"

definition example_reply_rereg_empty :: pydict where
  "example_reply_rereg_empty =
     [(''success'', PInt 1), (''failure'', PInt 0), (''canonical_ids'', PInt 1),
      (''results'', PList [])]"

text \<open>Gateway clients that answer every call with one fixed reply.\<close>

definition example_fcm_ok :: fcm_client where
  "example_fcm_ok call = Inr example_reply_ok"

definition example_fcm_critical :: fcm_client where
  "example_fcm_critical call = Inr example_reply_critical"

section \<open>Auxiliary facts\<close>

lemma example_router_init:
  "FCMRouter_init (\<lambda>k. k \<noteq> None) \<lparr>endpoint_url = ''https://push.example''\<rparr> example_conf
     = ([Log Debug ''Starting FCM router...''], Inr example_router)"
  by (simp add: FCMRouter_init_def example_conf_def example_router_def)

lemma init_min_ttl_default:
  "FCMRouter_init fcm_new ap conf = (evs, Inr self) \<Longrightarrow> conf_ttl conf = None
     \<Longrightarrow> min_ttl self = 60"
  by (auto simp add: FCMRouter_init_def split: if_splits)

lemma digit_value_digit: "d < 10 \<Longrightarrow> digit_value (digit d) = d"
proof -
  assume "d < 10"
  then have "d \<in> {0, 1, 2, 3, 4, 5, 6, 7, 8, 9}" by auto
  then show ?thesis
    by (auto simp add: digit_def digit_value_def)
qed

lemma read_nat_str_nat: "read_nat (str_nat n) = n"
proof (induction n rule: str_nat.induct)
  case (1 n)
  show ?case
  proof (cases "n < 10")
    case True
    then show ?thesis
      by (subst str_nat.simps) (simp add: read_nat_def digit_value_digit)
  next
    case False
    then have "read_nat (str_nat (n div 10)) = n div 10" using 1 by simp
    then show ?thesis using False
      by (subst str_nat.simps) (simp add: read_nat_def digit_value_digit)
  qed
qed

lemma str_int_overflow:
  "0 < i \<Longrightarrow> int (read_nat (str_int i)) = i"
  by (simp add: str_int_def read_nat_str_nat)

lemma str_int_4: "str_int 4 = ''4''"
  by (simp add: str_int_def str_nat.simps digit_def)

lemma get_result_absent:
  "map_of reply ''results'' = None \<Longrightarrow> get_result reply = Inr (PDict [])"
  by (simp add: get_result_def dict_get_default_def)

lemma get_result_first:
  "map_of reply ''results'' = Some (PList (r # rs)) \<Longrightarrow> get_result reply = Inr r"
  by (simp add: get_result_def dict_get_default_def)

lemma get_result_empty:
  "map_of reply ''results'' = Some (PList []) \<Longrightarrow> get_result reply = Inl IndexError"
  by (simp add: get_result_def dict_get_default_def)

lemma process_reply_no_result:
  "get_result reply = Inl e \<Longrightarrow> process_reply self reply n rd t = ([], Inl e)"
  by (simp add: process_reply_def)

lemma Unreported_entry:
  "map_of reasonTable ''Unreported''
     = Some \<lparr>msg = ''Error has no reported reason.'', err = 500, errno = 999,
              crit = Some True\<rparr>"
  by (simp add: reasonTable_def)

lemma InvalidPackageName_entry:
  "map_of reasonTable ''InvalidPackageName''
     = Some \<lparr>msg = ''Invalid Package Name specified'', err = 500, errno = 2,
              crit = Some True\<rparr>"
  by (simp add: reasonTable_def)

lemma NotRegistered_entry:
  "map_of reasonTable ''NotRegistered''
     = Some \<lparr>msg = ''device has unregistered with FCM: {regid}'', err = 410, errno = 103,
              crit = None\<rparr>"
  by (simp add: reasonTable_def)

text \<open>
  A failure without an \<^verbatim>\<open>error\<close> field does resolve to the \<^verbatim>\<open>Unreported\<close> entry: the
  default of \<^verbatim>\<open>result.get\<close> is a key of the table.
\<close>

lemma reason_missing_is_Unreported:
  assumes "map_of result ''error'' = None"
  shows "py_get (PDict result) ''error'' (PStr ''Unreported'') = Inr (PStr ''Unreported'')"
    and "reasonTable_get (PStr ''Unreported'')
           = Inr (Some \<lparr>msg = ''Error has no reported reason.'', err = 500, errno = 999,
                         crit = Some True\<rparr>)"
  using assms by (simp_all add: dict_get_default_def Unreported_entry)

text \<open>
  Any reason string that the table does not have makes the lookup return \<^verbatim>\<open>None\<close>, and
  the test of its \<^verbatim>\<open>crit\<close> flag raises.
\<close>

lemma unknown_reason_raises:
  assumes "get_result reply = Inr (PDict result)"
      and "\<not> truthy (dict_get reply ''canonical_ids'')"
      and "truthy (dict_get reply ''failure'')"
      and "map_of result ''error'' = Some (PStr s)"
      and "map_of reasonTable s = None"
  shows "process_reply self reply n rd t
           = ([Metric ''updates.client.bridge.fcm.failed''], Inl AttributeError)"
  using assms by (simp add: process_reply_def dict_get_default_def)

text \<open>
  The two branches that do not look at the reason, for a reply from which line 225
  extracts a result.
\<close>

lemma rereg_branch:
  assumes "get_result reply = Inr (PDict result)"
      and "truthy (dict_get reply ''canonical_ids'')"
      and "map_of rd ''token'' = Some old_id"
  shows "process_reply self reply n rd t
           = ([Log Info ''FCM id changed : {old} => {new}'',
               Metric ''updates.client.bridge.fcm.failed.rereg''],
              Inr \<lparr>status_code = 503, response_body = ''Please try request again.'',
                   resp_router_data =
                     Some [(''token'', dict_get_default result ''registration_id'' PNone)],
                   resp_headers = None, resp_errno = None, logged_status = None\<rparr>)"
  using assms by (simp add: process_reply_def)

lemma success_branch:
  assumes "get_result reply = Inr result"
      and "\<not> truthy (dict_get reply ''canonical_ids'')"
      and "\<not> truthy (dict_get reply ''failure'')"
  shows "process_reply self reply n rd t
           = ([Metric ''updates.client.bridge.fcm.succeeded''],
              Inr \<lparr>status_code = 201, response_body = [], resp_router_data = None,
                   resp_headers =
                     Some [(''TTL'', PInt t),
                           (''Location'',
                            PStr (endpoint_url (settings self) @ ''/m/'' @ version n))],
                   resp_errno = None, logged_status = Some 200\<rparr>)"
  using assms by (simp add: process_reply_def)

text \<open>
  A dispatch without payload that the gateway accepts: the \<^verbatim>\<open>TTL\<close> header is the
  clamped TTL of that send.
\<close>

lemma route_success:
  assumes "truthy (dict_get rd ''token'')"
      and "data n = None"
      and "fcm \<lparr>collapse_key = collapseKey self,
                 data_message = [(''chid'', PStr (uuid_hex (channel_id n)))],
                 dry_run = (dryRun self \<or> map_of rd ''dryrun'' \<noteq> None),
                 registration_id = dict_get rd ''token'',
                 time_to_live = router_ttl self n\<rparr> = Inr reply"
      and "get_result reply = Inr result"
      and "\<not> truthy (dict_get reply ''canonical_ids'')"
      and "\<not> truthy (dict_get reply ''failure'')"
  shows "route self fcm n rd
           = ([Metric ''updates.client.bridge.fcm.attempted'',
               Metric ''updates.client.bridge.fcm.succeeded''],
              Inr \<lparr>status_code = 201, response_body = [], resp_router_data = None,
                   resp_headers =
                     Some [(''TTL'', PInt (router_ttl self n)),
                           (''Location'',
                            PStr (endpoint_url (settings self) @ ''/m/'' @ version n))],
                   resp_errno = None, logged_status = Some 200\<rparr>)"
  using assms
  by (simp add: route_def attach_payload_def Let_def success_branch)

section \<open>The claims\<close>

subsection \<open>C1: a reason that the table does not have\<close>

text \<open>
  C1 states that a failure reply whose reason is not a key of the reason table is handled
  with the \<^verbatim>\<open>Unreported\<close> entry (status 500, errno 999, critical) and raises no lookup
  error. The source looks the reason up with \<^verbatim>\<open>self.reasonTable.get(reason)\<close> and no
  default, so an unknown reason gives \<^verbatim>\<open>None\<close> and the next line,
  \<^verbatim>\<open>err.get("crit", False)\<close>, raises \<^verbatim>\<open>AttributeError\<close>: for the reason
  \<^verbatim>\<open>MismatchSenderId\<close> reply processing increments the failure counter and then raises,
  instead of producing the failure of the \<^verbatim>\<open>Unreported\<close> entry. (A reply without any
  \<^verbatim>\<open>error\<close> field does reach that entry, see \<open>reason_missing_is_Unreported\<close>.)
\<close>

theorem C1_unknown_reason_raises:
  "process_reply example_router example_reply_unknown example_notification
     example_router_data 60
   = ([Metric ''updates.client.bridge.fcm.failed''], Inl AttributeError)"
  by (simp add: process_reply_def get_result_def dict_get_default_def dict_get_def
        reasonTable_def example_reply_unknown_def)

subsection \<open>C2: the outcome of a dispatch\<close>

text \<open>
  C2 states that every dispatch (\<^verbatim>\<open>_route\<close> followed by \<^verbatim>\<open>_process_reply\<close>) ends in a
  \<^verbatim>\<open>RouterResponse\<close> or a \<^verbatim>\<open>RouterException\<close> and in nothing else. The source lets
  built-in exceptions escape: for a notification without payload (the payload is
  optional) and a gateway reply that reports the critical reason
  \<^verbatim>\<open>InvalidPackageName\<close>, the critical log call evaluates
  \<^verbatim>\<open>len(notification.data)\<close> on \<^verbatim>\<open>None\<close> and the dispatch ends in a \<^verbatim>\<open>TypeError\<close>.
\<close>

theorem C2_critical_without_payload_raises:
  "route example_router example_fcm_critical example_notification example_router_data
   = ([Metric ''updates.client.bridge.fcm.attempted'',
       Metric ''updates.client.bridge.fcm.failed''], Inl TypeError)"
  by (simp add: route_def attach_payload_def process_reply_def get_result_def
        dict_get_default_def dict_get_def reasonTable_def example_router_data_def
        example_notification_def example_fcm_critical_def example_reply_critical_def)

subsection \<open>C3: the TTL clamp\<close>

text \<open>
  C3: for every requested TTL \<open>t\<close>, absent or not, the TTL used for the dispatch is
  \<open>min 2419200 (max minTtl (t or 0))\<close>. The theorem states it for the value computed at
  lines 187 and 188, states that the gateway client is called with exactly this value as
  \<^verbatim>\<open>time_to_live\<close> (changing the field to the formula in every call changes nothing), and
  gives the two examples of the claim for the floor of 60 seconds: no TTL gives 60, a TTL
  of 99999999 gives 2419200.
\<close>

theorem C3_effective_ttl:
  "router_ttl self n
     = min 2419200 (max (min_ttl self) (case ttl n of None \<Rightarrow> 0 | Some t \<Rightarrow> t))
   \<and> route self fcm n rd
     = route self
         (\<lambda>c. fcm (c\<lparr>time_to_live :=
                        min 2419200
                            (max (min_ttl self) (case ttl n of None \<Rightarrow> 0 | Some t \<Rightarrow> t))\<rparr>))
         n rd
   \<and> router_ttl (self\<lparr>min_ttl := 60\<rparr>) (n\<lparr>ttl := None\<rparr>) = 60
   \<and> router_ttl (self\<lparr>min_ttl := 60\<rparr>) (n\<lparr>ttl := Some 99999999\<rparr>) = 2419200"
proof -
  have eq: "router_ttl s m
              = min 2419200 (max (min_ttl s) (case ttl m of None \<Rightarrow> 0 | Some t \<Rightarrow> t))"
    for s m
    by (simp add: router_ttl_def MAX_TTL_def split: option.split)
  have r: "route self fcm n rd
             = route self (\<lambda>c. fcm (c\<lparr>time_to_live := router_ttl self n\<rparr>)) n rd"
    by (simp add: route_def Let_def split: prod.split sum.split)
  show ?thesis
    using r by (simp add: eq)
qed

subsection \<open>C4: registration\<close>

text \<open>
  C4 states that \<^verbatim>\<open>register\<close> fails with status 401 whenever the token is missing or
  empty. The source tests \<^verbatim>\<open>"token" not in router_data\<close>, the presence of the key only:
  routing data whose token is the empty string passes the test and, with the configured
  sender identity, is registered.
\<close>

theorem C4_empty_token_registers:
  "register example_router ''uaid'' [(''token'', PStr [])] ''SID''
   = ([], Inr [(''token'', PStr []),
               (''creds'', PDict [(''senderID'', PStr ''SID''), (''auth'', PStr ''KEY'')])])"
  by (simp add: register_def example_router_def)

text \<open>
  C4, amended: for every routing data without a \<^verbatim>\<open>token\<close> key, \<^verbatim>\<open>register\<close> fails with
  a \<^verbatim>\<open>RouterException\<close> of status 401 and never succeeds; when the key is present and
  the sender identity is the configured one it succeeds; and every success has a token
  key and the configured sender identity, and leaves the routing data as it was except
  for \<^verbatim>\<open>creds\<close>, which holds the configured \<^verbatim>\<open>senderID\<close> and \<^verbatim>\<open>auth\<close>.
\<close>

theorem C4_register_token_key:
  "(map_of rd ''token'' = None \<longrightarrow>
      register self uaid rd app_id
        = ([Log Debug (''connect info missing FCM Instance 'token'' @ [CHR 0x27])],
           Inl (RouterException
                 \<lparr>message = ''connect info missing FCM Instance 'token'' @ [CHR 0x27],
                  exc_status_code = 401,
                  exc_response_body =
                    Some (''connect info missing FCM Instance 'token'' @ [CHR 0x27]),
                  exc_errno = None, log_exception = None\<rparr>)))
   \<and> (map_of rd ''token'' \<noteq> None \<and> senderID self = Some app_id \<longrightarrow>
        register self uaid rd app_id
          = ([], Inr (AList.update ''creds''
                        (PDict [(''senderID'', opt_str (senderID self)),
                                (''auth'', opt_str (auth self))])
                        rd)))
   \<and> (\<forall>rd'. snd (register self uaid rd app_id) = Inr rd' \<longrightarrow>
          map_of rd ''token'' \<noteq> None \<and> senderID self = Some app_id \<and>
          map_of rd' = (map_of rd)(''creds'' \<mapsto>
                          PDict [(''senderID'', opt_str (senderID self)),
                                 (''auth'', opt_str (auth self))]))"
proof (cases "map_of rd ''token''")
  case None
  then show ?thesis
    by (simp add: register_def router_error_def)
next
  case (Some tok)
  show ?thesis
  proof (cases "senderID self = Some app_id")
    case True
    with Some have "register self uaid rd app_id
          = ([], Inr (AList.update ''creds''
                        (PDict [(''senderID'', opt_str (senderID self)),
                                (''auth'', opt_str (auth self))])
                        rd))"
      by (simp add: register_def)
    with Some True show ?thesis
      by (simp add: update_conv')
  next
    case False
    with Some have "snd (register self uaid rd app_id)
          = Inl (snd (router_error ''Invalid SenderID'' 410 (Some 105) None))"
      by (auto simp add: register_def router_error_def)
    with Some False show ?thesis
      by simp
  qed
qed

theorem C4_register_token_key_witness:
  "map_of ([] :: pydict) ''token'' = None
   \<and> register example_router ''uaid'' [] ''SID''
        = ([Log Debug (''connect info missing FCM Instance 'token'' @ [CHR 0x27])],
           Inl (RouterException
                 \<lparr>message = ''connect info missing FCM Instance 'token'' @ [CHR 0x27],
                  exc_status_code = 401,
                  exc_response_body =
                    Some (''connect info missing FCM Instance 'token'' @ [CHR 0x27]),
                  exc_errno = None, log_exception = None\<rparr>))
   \<and> map_of [(''token'', PStr ''tok'')] ''token'' \<noteq> None
   \<and> senderID example_router = Some ''SID''
   \<and> register example_router ''uaid'' [(''token'', PStr ''tok'')] ''SID''
        = ([], Inr [(''token'', PStr ''tok''),
                    (''creds'', PDict [(''senderID'', PStr ''SID''), (''auth'', PStr ''KEY'')])])"
  using C4_register_token_key [where rd = "[]" and self = example_router
          and uaid = "''uaid''" and app_id = "''SID''"]
        C4_register_token_key [where rd = "[(''token'', PStr ''tok'')]"
          and self = example_router and uaid = "''uaid''" and app_id = "''SID''"]
  by (simp add: example_router_def)

subsection \<open>C5: the result of a reply\<close>

text \<open>
  C5 states that reply processing takes \<^verbatim>\<open>results[0]\<close> when there is one and the empty
  record otherwise, so that a reply whose list of results is empty or absent raises no
  index error. The default \<^verbatim>\<open>[{}]\<close> of \<^verbatim>\<open>reply.get('results', [{}])\<close> covers the absent
  key only (\<open>get_result_absent\<close>): a reply with an empty list is indexed at 0 and raises
  \<^verbatim>\<open>IndexError\<close>, before any branch is taken.
\<close>

theorem C5_empty_results_raises:
  "get_result example_reply_empty = Inl IndexError
   \<and> process_reply example_router example_reply_empty example_notification
        example_router_data 60 = ([], Inl IndexError)"
  by (simp add: process_reply_def get_result_def dict_get_default_def
        example_reply_empty_def)

subsection \<open>C6: re-registration\<close>

text \<open>
  C6 states that every reply with a truthy \<^verbatim>\<open>canonical_ids\<close> yields the response 503
  with the new registration id as the token of the patch, and one increment of the rereg
  counter. That is what the branch does once a result has been extracted
  (\<open>rereg_branch\<close>), but a reply with \<^verbatim>\<open>canonical_ids\<close> set and an empty list of results
  raises \<^verbatim>\<open>IndexError\<close> at line 225: no response, and no increment of the counter.
\<close>

theorem C6_rereg_empty_results_raises:
  "process_reply example_router example_reply_rereg_empty example_notification
     example_router_data 60 = ([], Inl IndexError)"
  by (simp add: process_reply_def get_result_def dict_get_default_def
        example_reply_rereg_empty_def)

subsection \<open>C7: success\<close>

text \<open>
  C7 states that every reply with neither \<^verbatim>\<open>failure\<close> nor \<^verbatim>\<open>canonical_ids\<close> set
  increments the succeeded counter and yields the response 201 with the \<^verbatim>\<open>TTL\<close> and
  \<^verbatim>\<open>Location\<close> headers and the logged status 200. That is what the branch does once a
  result has been extracted (\<open>success_branch\<close>, \<open>route_success\<close>), but a reply that
  reports success with an empty list of results raises \<^verbatim>\<open>IndexError\<close> at line 225: no
  response, and no increment of the counter.
\<close>

theorem C7_success_empty_results_raises:
  "process_reply example_router example_reply_ok_empty example_notification
     example_router_data 60 = ([], Inl IndexError)"
  by (simp add: process_reply_def get_result_def dict_get_default_def
        example_reply_ok_empty_def)

subsection \<open>C8: the size of the payload\<close>

text \<open>
  C8 states that every notification whose payload is longer than \<^verbatim>\<open>max_data\<close> fails with
  status 413 and errno 104. The token of the routing data is tested first: without a
  token the dispatch of an oversized payload fails with status 410 and errno 106.
\<close>

theorem C8_missing_token_first:
  "route (example_router\<lparr>config := example_conf\<lparr>conf_max_data := Some 4\<rparr>\<rparr>) example_fcm_ok
         (example_notification\<lparr>data := Some ''abcdefgh''\<rparr>) []
   = ([Log Debug ''No registration token found. Rejecting message.''],
      Inl (RouterException
            \<lparr>message = ''No registration token found. Rejecting message.'',
             exc_status_code = 410,
             exc_response_body = Some ''No registration token found. Rejecting message.'',
             exc_errno = Some 106, log_exception = Some False\<rparr>))"
  by (simp add: route_def dict_get_def router_error_def)

text \<open>
  C8, amended: for routing data with a truthy token and every notification whose payload
  is present, not empty and longer than the configured \<^verbatim>\<open>max_data\<close> (4096 when not
  configured), the dispatch fails, before the gateway is called, with a
  \<^verbatim>\<open>RouterException\<close> of status 413 and errno 104 that is not logged as an exception and
  whose message ends in the decimal rendering of \<open>len(data) - max_data\<close>.
\<close>

theorem C8_payload_too_long:
  assumes "truthy (dict_get rd ''token'')"
      and "data n = Some d" and "d \<noteq> []"
      and "mdata = (case conf_max_data (config self) of None \<Rightarrow> 4096 | Some m \<Rightarrow> m)"
      and "int (length d) > mdata"
  shows "route self fcm n rd
         = ([Log Debug (''This message is intended for a constrained device and is limited to 3070 bytes. Converted buffer too long by ''
                        @ str_int (int (length d) - mdata) @ '' bytes'')],
            Inl (RouterException
                  \<lparr>message = ''This message is intended for a constrained device and is limited to 3070 bytes. Converted buffer too long by ''
                              @ str_int (int (length d) - mdata) @ '' bytes'',
                   exc_status_code = 413,
                   exc_response_body = Some (''This message is intended for a constrained device and is limited to 3070 bytes. Converted buffer too long by ''
                              @ str_int (int (length d) - mdata) @ '' bytes''),
                   exc_errno = Some 104, log_exception = Some False\<rparr>))"
  using assms by (simp add: route_def attach_payload_def router_error_def Let_def)

theorem C8_payload_too_long_witness:
  "truthy (dict_get example_router_data ''token'')
   \<and> data (example_notification\<lparr>data := Some ''abcdefgh''\<rparr>) = Some ''abcdefgh''
   \<and> ''abcdefgh'' \<noteq> []
   \<and> int (length ''abcdefgh'') > 4
   \<and> route (example_router\<lparr>config := example_conf\<lparr>conf_max_data := Some 4\<rparr>\<rparr>) example_fcm_ok
         (example_notification\<lparr>data := Some ''abcdefgh''\<rparr>) example_router_data
      = ([Log Debug ''This message is intended for a constrained device and is limited to 3070 bytes. Converted buffer too long by 4 bytes''],
         Inl (RouterException
               \<lparr>message = ''This message is intended for a constrained device and is limited to 3070 bytes. Converted buffer too long by 4 bytes'',
                exc_status_code = 413,
                exc_response_body = Some ''This message is intended for a constrained device and is limited to 3070 bytes. Converted buffer too long by 4 bytes'',
                exc_errno = Some 104, log_exception = Some False\<rparr>))"
  using C8_payload_too_long [where rd = example_router_data
          and n = "example_notification\<lparr>data := Some ''abcdefgh''\<rparr>" and d = "''abcdefgh''"
          and mdata = 4
          and self = "example_router\<lparr>config := example_conf\<lparr>conf_max_data := Some 4\<rparr>\<rparr>"
          and fcm = example_fcm_ok]
  by (simp add: example_router_data_def dict_get_def str_int_4)

subsection \<open>C9: a critical failure\<close>

text \<open>
  C9: for a failure reply whose reason resolves to a critical entry of the table, the
  \<^verbatim>\<open>RouterException\<close> with the status of the entry, the body
  \<^verbatim>\<open>Please try request later.\<close> and no logging as an exception is produced only when the
  notification has a payload. The critical log call evaluates \<^verbatim>\<open>len(notification.data)\<close>
  first: without a payload reply processing raises \<^verbatim>\<open>TypeError\<close> after the increment
  of the failure counter; with a payload, and a token in the routing data, it writes the
  critical log and raises the documented failure.
\<close>

theorem C9_critical_needs_payload:
  assumes "get_result reply = Inr result"
      and "\<not> truthy (dict_get reply ''canonical_ids'')"
      and "truthy (dict_get reply ''failure'')"
      and "py_get result ''error'' (PStr ''Unreported'') = Inr reason"
      and "reasonTable_get reason = Inr (Some entry)"
      and "crit entry = Some True"
  shows "(\<forall>x. snd (process_reply self reply n rd t) = Inl (RouterException x)
               \<longrightarrow> data n \<noteq> None)
       \<and> (data n = None \<longrightarrow>
            process_reply self reply n rd t
              = ([Metric ''updates.client.bridge.fcm.failed''], Inl TypeError))
       \<and> (data n \<noteq> None \<and> map_of rd ''token'' \<noteq> None \<longrightarrow>
            process_reply self reply n rd t
              = ([Metric ''updates.client.bridge.fcm.failed'', Log Critical (msg entry)],
                 Inl (RouterException
                       \<lparr>message = ''FCM failure to deliver'',
                        exc_status_code = err entry,
                        exc_response_body = Some ''Please try request later.'',
                        exc_errno = None,
                        log_exception = Some False\<rparr>)))"
proof (cases "data n")
  case None
  with assms have "process_reply self reply n rd t
                     = ([Metric ''updates.client.bridge.fcm.failed''], Inl TypeError)"
    by (simp add: process_reply_def)
  with None show ?thesis by simp
next
  case (Some d)
  show ?thesis
  proof (cases "map_of rd ''token''")
    case None
    with assms Some have "process_reply self reply n rd t
        = ([Metric ''updates.client.bridge.fcm.failed''], Inl (KeyError ''token''))"
      by (simp add: process_reply_def)
    with Some None show ?thesis by simp
  next
    case (Some regid)
    with assms \<open>data n = Some d\<close> have "process_reply self reply n rd t
        = ([Metric ''updates.client.bridge.fcm.failed'', Log Critical (msg entry)],
           Inl (RouterException
                 \<lparr>message = ''FCM failure to deliver'',
                  exc_status_code = err entry,
                  exc_response_body = Some ''Please try request later.'',
                  exc_errno = None,
                  log_exception = Some False\<rparr>))"
      by (simp add: process_reply_def)
    with \<open>data n = Some d\<close> show ?thesis by simp
  qed
qed

theorem C9_critical_needs_payload_witness:
  "get_result example_reply_critical = Inr (PDict [(''error'', PStr ''InvalidPackageName'')])
   \<and> \<not> truthy (dict_get example_reply_critical ''canonical_ids'')
   \<and> truthy (dict_get example_reply_critical ''failure'')
   \<and> py_get (PDict [(''error'', PStr ''InvalidPackageName'')]) ''error'' (PStr ''Unreported'')
        = Inr (PStr ''InvalidPackageName'')
   \<and> reasonTable_get (PStr ''InvalidPackageName'')
        = Inr (Some \<lparr>msg = ''Invalid Package Name specified'', err = 500, errno = 2,
                      crit = Some True\<rparr>)
   \<and> data example_notification = None
   \<and> process_reply example_router example_reply_critical example_notification
         example_router_data 60
        = ([Metric ''updates.client.bridge.fcm.failed''], Inl TypeError)
   \<and> data (example_notification\<lparr>data := Some ''payload''\<rparr>) \<noteq> None
   \<and> map_of example_router_data ''token'' \<noteq> None
   \<and> process_reply example_router example_reply_critical
         (example_notification\<lparr>data := Some ''payload''\<rparr>) example_router_data 60
        = ([Metric ''updates.client.bridge.fcm.failed'',
            Log Critical ''Invalid Package Name specified''],
           Inl (RouterException
                 \<lparr>message = ''FCM failure to deliver'',
                  exc_status_code = 500,
                  exc_response_body = Some ''Please try request later.'',
                  exc_errno = None,
                  log_exception = Some False\<rparr>))"
proof -
  have h1: "get_result example_reply_critical
              = Inr (PDict [(''error'', PStr ''InvalidPackageName'')])"
    by (simp add: get_result_def dict_get_default_def example_reply_critical_def)
  have h2: "\<not> truthy (dict_get example_reply_critical ''canonical_ids'')"
    by (simp add: dict_get_def example_reply_critical_def)
  have h3: "truthy (dict_get example_reply_critical ''failure'')"
    by (simp add: dict_get_def example_reply_critical_def)
  have h4: "py_get (PDict [(''error'', PStr ''InvalidPackageName'')]) ''error''
              (PStr ''Unreported'') = Inr (PStr ''InvalidPackageName'')"
    by (simp add: dict_get_default_def)
  have h5: "reasonTable_get (PStr ''InvalidPackageName'')
              = Inr (Some \<lparr>msg = ''Invalid Package Name specified'', err = 500, errno = 2,
                            crit = Some True\<rparr>)"
    by (simp add: InvalidPackageName_entry)
  have h6: "crit \<lparr>msg = ''Invalid Package Name specified'', err = 500, errno = 2,
                   crit = Some True\<rparr> = Some True"
    by simp
  have d1: "data example_notification = None"
    by (simp add: example_notification_def)
  have d2: "map_of example_router_data ''token'' \<noteq> None"
    by (simp add: example_router_data_def)
  note a = C9_critical_needs_payload [OF h1 h2 h3 h4 h5 h6,
             where self = example_router and n = example_notification
               and rd = example_router_data and t = 60]
  note b = C9_critical_needs_payload [OF h1 h2 h3 h4 h5 h6,
             where self = example_router
               and n = "example_notification\<lparr>data := Some ''payload''\<rparr>"
               and rd = example_router_data and t = 60]
  show ?thesis
    using a b h1 h2 h3 h4 h5 d1 d2 by simp
qed

subsection \<open>C10: a soft failure\<close>

text \<open>
  C10: for a failure reply whose reason resolves to an entry of the table that is not
  critical, the \<^verbatim>\<open>RouterResponse\<close> with the status, errno and message of the entry and
  an empty patch is produced only when the routing data has a \<^verbatim>\<open>creds\<close> key. The
  informational log reads \<^verbatim>\<open>router_data["creds"]\<close> first: without the key reply
  processing raises \<^verbatim>\<open>KeyError\<close> after the increment of the failure counter; with
  credentials that are a dictionary it writes the log and returns the documented
  response.
\<close>

theorem C10_soft_failure_needs_creds:
  assumes "get_result reply = Inr result"
      and "\<not> truthy (dict_get reply ''canonical_ids'')"
      and "truthy (dict_get reply ''failure'')"
      and "py_get result ''error'' (PStr ''Unreported'') = Inr reason"
      and "reasonTable_get reason = Inr (Some entry)"
      and "crit entry \<noteq> Some True"
  shows "(\<forall>resp. snd (process_reply self reply n rd t) = Inr resp
               \<longrightarrow> map_of rd ''creds'' \<noteq> None)
       \<and> (map_of rd ''creds'' = None \<longrightarrow>
            process_reply self reply n rd t
              = ([Metric ''updates.client.bridge.fcm.failed''], Inl (KeyError ''creds'')))
       \<and> (\<forall>creds. map_of rd ''creds'' = Some (PDict creds) \<longrightarrow>
            process_reply self reply n rd t
              = ([Metric ''updates.client.bridge.fcm.failed'', Log Info ''{msg} : {info}''],
                 Inr \<lparr>status_code = err entry,
                      response_body = msg entry,
                      resp_router_data = Some [],
                      resp_headers = None,
                      resp_errno = Some (errno entry),
                      logged_status = None\<rparr>))"
proof -
  from \<open>crit entry \<noteq> Some True\<close>
  have soft: "\<not> (case crit entry of None \<Rightarrow> False | Some c \<Rightarrow> c)"
    by (cases "crit entry") auto
  show ?thesis
  proof (cases "map_of rd ''creds''")
    case None
    with assms soft have "process_reply self reply n rd t
        = ([Metric ''updates.client.bridge.fcm.failed''], Inl (KeyError ''creds''))"
      by (simp add: process_reply_def)
    with None show ?thesis by simp
  next
    case (Some creds)
    with assms soft have "process_reply self reply n rd t
        = (case py_get creds ''registration_id'' PNone of
             Inl e \<Rightarrow> ([Metric ''updates.client.bridge.fcm.failed''], Inl e)
           | Inr sid \<Rightarrow>
              ([Metric ''updates.client.bridge.fcm.failed'', Log Info ''{msg} : {info}''],
               Inr \<lparr>status_code = err entry,
                    response_body = msg entry,
                    resp_router_data = Some [],
                    resp_headers = None,
                    resp_errno = Some (errno entry),
                    logged_status = None\<rparr>))"
      by (simp add: process_reply_def Let_def split: sum.split)
    with Some show ?thesis by auto
  qed
qed

theorem C10_soft_failure_needs_creds_witness:
  "get_result example_reply_soft = Inr (PDict [(''error'', PStr ''NotRegistered'')])
   \<and> \<not> truthy (dict_get example_reply_soft ''canonical_ids'')
   \<and> truthy (dict_get example_reply_soft ''failure'')
   \<and> py_get (PDict [(''error'', PStr ''NotRegistered'')]) ''error'' (PStr ''Unreported'')
        = Inr (PStr ''NotRegistered'')
   \<and> reasonTable_get (PStr ''NotRegistered'')
        = Inr (Some \<lparr>msg = ''device has unregistered with FCM: {regid}'', err = 410,
                      errno = 103, crit = None\<rparr>)
   \<and> map_of [(''token'', PStr ''old'')] ''creds'' = None
   \<and> process_reply example_router example_reply_soft example_notification
         [(''token'', PStr ''old'')] 60
        = ([Metric ''updates.client.bridge.fcm.failed''], Inl (KeyError ''creds''))
   \<and> map_of example_router_data ''creds''
        = Some (PDict [(''senderID'', PStr ''SID''), (''auth'', PStr ''KEY'')])
   \<and> process_reply example_router example_reply_soft example_notification
         example_router_data 60
        = ([Metric ''updates.client.bridge.fcm.failed'', Log Info ''{msg} : {info}''],
           Inr \<lparr>status_code = 410,
                response_body = ''device has unregistered with FCM: {regid}'',
                resp_router_data = Some [],
                resp_headers = None,
                resp_errno = Some 103,
                logged_status = None\<rparr>)"
proof -
  have h1: "get_result example_reply_soft = Inr (PDict [(''error'', PStr ''NotRegistered'')])"
    by (simp add: get_result_def dict_get_default_def example_reply_soft_def)
  have h2: "\<not> truthy (dict_get example_reply_soft ''canonical_ids'')"
    by (simp add: dict_get_def example_reply_soft_def)
  have h3: "truthy (dict_get example_reply_soft ''failure'')"
    by (simp add: dict_get_def example_reply_soft_def)
  have h4: "py_get (PDict [(''error'', PStr ''NotRegistered'')]) ''error''
              (PStr ''Unreported'') = Inr (PStr ''NotRegistered'')"
    by (simp add: dict_get_default_def)
  have h5: "reasonTable_get (PStr ''NotRegistered'')
              = Inr (Some \<lparr>msg = ''device has unregistered with FCM: {regid}'', err = 410,
                            errno = 103, crit = None\<rparr>)"
    by (simp add: NotRegistered_entry)
  have h6: "crit \<lparr>msg = ''device has unregistered with FCM: {regid}'', err = 410,
                   errno = 103, crit = None\<rparr> \<noteq> Some True"
    by simp
  have d1: "map_of [(''token'', PStr ''old'')] ''creds'' = None"
    by simp
  have d2: "map_of example_router_data ''creds''
              = Some (PDict [(''senderID'', PStr ''SID''), (''auth'', PStr ''KEY'')])"
    by (simp add: example_router_data_def)
  note a = C10_soft_failure_needs_creds [OF h1 h2 h3 h4 h5 h6,
             where self = example_router and n = example_notification
               and rd = "[(''token'', PStr ''old'')]" and t = 60]
  note b = C10_soft_failure_needs_creds [OF h1 h2 h3 h4 h5 h6,
             where self = example_router and n = example_notification
               and rd = example_router_data and t = 60]
  show ?thesis
    using a b h1 h2 h3 h4 h5 d1 d2 by simp
qed

end
